theory Spec2Isabelle
  imports Main "HOL-Library.Option_ord" "HOL-Library.Product_Lexorder" "HOL-Library.Multiset"
begin

section \<open>Data model\<close>

text \<open>
  The Task collection of \<^verbatim>\<open>models/Task.js\<close>. A document is a record of the schema's
  fields, together with the identifier \<^verbatim>\<open>_id\<close> and the \<^verbatim>\<open>createdAt\<close> stamp that the
  \<^verbatim>\<open>timestamps\<close> option adds (the \<^verbatim>\<open>updatedAt\<close> bookkeeping stamp is left out of the
  model). Dates are milliseconds since the epoch; a nullable field is an option.
  The status is a plain string, as in the schema: the enum is a validator, not a type.
\<close>

record comment =
  author :: string
  message :: string
  timestamp :: int

record task =
  task_id :: string
  taskName :: string
  description :: string
  eventName :: string
  eventID :: string
  status :: string
  budget :: "int option"
  creator :: string
  assignee :: string
  deadline :: "int option"
  createdAt :: int
  comments :: "comment list"

text \<open>The collection is the list of its documents, in natural order.\<close>

type_synonym task_store = "task list"

text \<open>
  What the database layer throws: a negative \<^verbatim>\<open>skip\<close> is refused by the server, and an
  identifier that is no ObjectId fails to cast. The controllers catch both and answer
  500 with their own prefix followed by the error's message.
\<close>

datatype db_error = NegativeSkip | CastError

text \<open>HTTP responses: a status code and a JSON body.\<close>

datatype body =
    Message string
  | ErrorBody string
  | Failure string db_error
  | MessageTask string task
  | TaskList "task list"
  | EventList "(string \<times> string) list"

datatype response = Response (code: nat) (payload: body)

text \<open>
  JavaScript truthiness of an optional string (a header, a route or query parameter, a
  body field): \<^verbatim>\<open>undefined\<close> and the empty string are falsy.
\<close>

fun truthy :: "string option \<Rightarrow> bool" where
  "truthy None = False"
| "truthy (Some s) = (s \<noteq> [])"

section \<open>Store operations\<close>

text \<open>\<^verbatim>\<open>Task.findById(id)\<close>: the document with that identifier, or null.\<close>

definition findById :: "string \<Rightarrow> task_store \<Rightarrow> task option" where
  "findById i ts = find (\<lambda>t. task_id t = i) ts"

text \<open>
  \<^verbatim>\<open>Task.findByIdAndUpdate(id, update, {new: true})\<close>: applies the update to the one
  document with that identifier and returns it as updated, or returns null and leaves
  the collection as it is. Update validators are off unless asked for, and the call
  does not ask for them.
\<close>

fun findByIdAndUpdate :: "string \<Rightarrow> (task \<Rightarrow> task) \<Rightarrow> task_store \<Rightarrow> task option \<times> task_store" where
  "findByIdAndUpdate i f [] = (None, [])"
| "findByIdAndUpdate i f (t # ts) =
     (if task_id t = i then (Some (f t), f t # ts)
      else (case findByIdAndUpdate i f ts of (r, ts') \<Rightarrow> (r, t # ts')))"


section \<open>Assignee-facing task controller\<close>

text \<open>
  \<^verbatim>\<open>updateTaskStatus\<close> of \<^verbatim>\<open>controllers/taskController.js\<close>. The parameter \<open>isValid\<close>
  is \<^verbatim>\<open>mongoose.Types.ObjectId.isValid\<close>; the route parameter \<^verbatim>\<open>taskId\<close> and the body
  field \<^verbatim>\<open>status\<close> are optional strings. The result is the response and the store
  after the request.
\<close>

definition updateTaskStatus ::
  "(string \<Rightarrow> bool) \<Rightarrow> task_store \<Rightarrow> string option \<Rightarrow> string option \<Rightarrow> response \<times> task_store" where
  "updateTaskStatus isValid store taskId status' =
     (if \<not> truthy taskId \<or> \<not> truthy status'
      then (Response 400 (Message ''Task ID and status are required''), store)
      else if \<not> isValid (the taskId)
      then (Response 400 (Message ''Invalid Task ID format''), store)
      else (case findByIdAndUpdate (the taskId) (\<lambda>t. t\<lparr>status := the status'\<rparr>) store of
              (None, store') \<Rightarrow> (Response 404 (Message ''Task not found''), store')
            | (Some updatedTask, store') \<Rightarrow>
                (Response 200 (MessageTask ''Task status updated'' updatedTask), store')))"

text \<open>A sequence of status updates of one task, each on the store the previous one left.\<close>

fun updateAll :: "(string \<Rightarrow> bool) \<Rightarrow> task_store \<Rightarrow> string \<Rightarrow> string list \<Rightarrow> task_store" where
  "updateAll isValid store i [] = store"
| "updateAll isValid store i (s # ss) =
     updateAll isValid (snd (updateTaskStatus isValid store (Some i) (Some s))) i ss"

text \<open>The values the schema declares for the status.\<close>

definition status_enum :: "string list" where
  "status_enum = [''Pending'', ''In Progress'', ''Completed'']"

text \<open>
  The order of \<^verbatim>\<open>.sort({ deadline: 1, createdAt: 1 })\<close>: by deadline, then by creation
  time, ascending; a null deadline comes before every date. Documents with equal keys
  keep their natural order.
\<close>

definition sortKey :: "task \<Rightarrow> int option \<times> int" where
  "sortKey t = (deadline t, createdAt t)"

definition sortTasks :: "task list \<Rightarrow> task list" where
  "sortTasks ts = sort_key sortKey ts"

text \<open>
  \<^verbatim>\<open>.skip(skip).limit(limit)\<close> on a query result: the server refuses a negative skip.
\<close>

definition skipLimit :: "int \<Rightarrow> nat \<Rightarrow> 'a list \<Rightarrow> db_error + 'a list" where
  "skipLimit skip limit xs =
     (if skip < 0 then Inl NegativeSkip else Inr (take limit (drop (nat skip) xs)))"

text \<open>
  \<^verbatim>\<open>getTasksByAssignee\<close>: the tasks of the assignee named by the \<^verbatim>\<open>user-email\<close> header.
\<close>

definition getTasksByAssignee :: "task_store \<Rightarrow> string option \<Rightarrow> response" where
  "getTasksByAssignee store userEmail =
     (if \<not> truthy userEmail
      then Response 400 (Message ''User email is required in headers'')
      else (let tasks = sortTasks (filter (\<lambda>t. assignee t = the userEmail) store)
            in if length tasks = 0
               then Response 404 (Message ''No tasks found for this employee'')
               else Response 200 (TaskList tasks)))"


section \<open>Creator-facing task controller\<close>

text \<open>
  \<^verbatim>\<open>getTasks\<close>: the tasks of a creator, one page of ten at a time. The parameter
  \<open>page'\<close> is the value of \<^verbatim>\<open>parseInt(taskRequest.query.page)\<close>, \<open>None\<close> standing for
  NaN; \<^verbatim>\<open>|| 1\<close> replaces NaN and 0 by 1.
\<close>

definition pageOf :: "int option \<Rightarrow> int" where
  "pageOf page' = (case page' of None \<Rightarrow> 1 | Some p \<Rightarrow> if p = 0 then 1 else p)"


text \<open>
  \<^verbatim>\<open>filterTasks\<close>: the query gets a status only when the parameter is one of the three
  listed values, and an assignee only when the parameter is truthy.
\<close>

record task_query =
  q_status :: "string option"
  q_assignee :: "string option"

definition matches :: "task_query \<Rightarrow> task \<Rightarrow> bool" where
  "matches q t =
     ((case q_status q of None \<Rightarrow> True | Some s \<Rightarrow> status t = s) \<and>
      (case q_assignee q of None \<Rightarrow> True | Some a \<Rightarrow> assignee t = a))"

definition filterTasks :: "task_store \<Rightarrow> string option \<Rightarrow> string option \<Rightarrow> response" where
  "filterTasks store status' assignee' =
     (let query = \<lparr>q_status = None, q_assignee = None\<rparr>;
          query = (if truthy status' \<and>
                      the status' \<in> set [''Pending'', ''In Progress'', ''Completed'']
                   then query\<lparr>q_status := status'\<rparr> else query);
          query = (if truthy assignee' then query\<lparr>q_assignee := assignee'\<rparr> else query)
      in Response 200 (TaskList (filter (matches query) store)))"




section \<open>Events\<close>

text \<open>The Event collection of \<^verbatim>\<open>models/Event.js\<close>.\<close>

record event =
  event_id :: string
  ev_eventName :: string
  ev_eventType :: string
  date :: "int option"
  venue :: "string option"
  ev_description :: string
  availableSlots :: "int option"
  ticketPrice :: "int option"
  ev_totalBudget :: "int option"
  attendees :: "string list"
  ev_team :: string
  isPaid :: bool
  ev_creator :: string

text \<open>
  \<^verbatim>\<open>getEventsByCreator\<close>: the identifiers and names of a creator's events, sorted by
  date (a missing date first), one page of ten at a time; an empty page is a 404.
\<close>

definition getEventsByCreator :: "event list \<Rightarrow> string option \<Rightarrow> int option \<Rightarrow> response" where
  "getEventsByCreator store userEmail page' =
     (if \<not> truthy userEmail
      then Response 400 (Message ''User email is required in headers'')
      else (let page = pageOf page';
                limit = 10;
                skip = (page - 1) * limit
            in case skipLimit skip (nat limit)
                      (map (\<lambda>e. (event_id e, ev_eventName e))
                         (sort_key date (filter (\<lambda>e. ev_creator e = the userEmail) store))) of
                 Inl e \<Rightarrow> Response 500 (Failure ''Error fetching events: '' e)
               | Inr events \<Rightarrow>
                   if length events = 0
                   then Response 404 (Message ''No events found for this creator'')
                   else Response 200 (EventList events)))"

text \<open>
  Modelled from the spec: the RSVP controller (\<^verbatim>\<open>confirmRSVP\<close> of
  \<^verbatim>\<open>controllers/eventController.js\<close>, mounted at \<^verbatim>\<open>POST /:id/rsvp\<close>) is not among the
  source files. The specification says that RSVP appends an identifier to the event's
  attendees, with no slot-capacity enforcement and no duplicate prevention.
\<close>

definition confirmRSVP :: "event \<Rightarrow> string \<Rightarrow> event" where
  "confirmRSVP e who = e\<lparr>attendees := attendees e @ [who]\<rparr>"

section \<open>Access-control middleware\<close>

text \<open>The Employee collection of \<^verbatim>\<open>models/Employee.js\<close>.\<close>

record employee =
  emp_id :: string
  name :: string
  email :: string
  password :: string
  emp_team :: string
  role :: string

text \<open>What the middleware attaches to the request as \<^verbatim>\<open>authRequest.user\<close>.\<close>

record user =
  u_id :: string
  u_email :: string
  u_name :: string
  u_role :: string
  u_team :: string

text \<open>The parts of a request that the middleware reads.\<close>

record auth_request =
  cookie_token :: "string option"
  authorization :: "string option"

text \<open>
  \<^verbatim>\<open>s.replace(pat, rep)\<close> with a string pattern: the first occurrence of the pattern is
  replaced, wherever it is.
\<close>

fun replaceFirst :: "string \<Rightarrow> string \<Rightarrow> string \<Rightarrow> string" where
  "replaceFirst pat rep [] = (if pat = [] then rep else [])"
| "replaceFirst pat rep (c # cs) =
     (if take (length pat) (c # cs) = pat then rep @ drop (length pat) (c # cs)
      else c # replaceFirst pat rep cs)"

text \<open>
  \<^verbatim>\<open>authRequest.cookies?.token || authRequest.header("Authorization")?.replace("Bearer ", "")\<close>
\<close>

definition tokenOf :: "auth_request \<Rightarrow> string option" where
  "tokenOf req =
     (if truthy (cookie_token req) then cookie_token req
      else map_option (replaceFirst ''Bearer '' []) (authorization req))"

text \<open>
  The outcome of \<^verbatim>\<open>jwt.verify(token, JWT_SECRET)\<close>: it throws on a token that is
  malformed, wrongly signed or expired, and otherwise returns the decoded payload, whose
  \<^verbatim>\<open>id\<close> may be missing. The library is a parameter of the middleware.
\<close>

datatype verified = Throws | Decoded (decoded_id: "string option")

text \<open>
  \<^verbatim>\<open>Employee.findById(decoded.id)\<close>: an undefined identifier finds nothing, and one that
  is no ObjectId makes the query throw.
\<close>

definition findEmployee :: "(string \<Rightarrow> bool) \<Rightarrow> employee list \<Rightarrow> string option \<Rightarrow> db_error + employee option" where
  "findEmployee isValid emps i' =
     (case i' of
        None \<Rightarrow> Inr None
      | Some i \<Rightarrow> if \<not> isValid i then Inl CastError else Inr (find (\<lambda>e. emp_id e = i) emps))"

text \<open>
  \<^verbatim>\<open>authenticateUser\<close>: either the middleware answers itself and the pipeline halts,
  or it calls \<^verbatim>\<open>nextMiddleware()\<close> with the user attached to the request.
\<close>

datatype auth_outcome = Halt response | Next user

definition authenticateUser ::
  "(string \<Rightarrow> verified) \<Rightarrow> (string \<Rightarrow> bool) \<Rightarrow> employee list \<Rightarrow> auth_request \<Rightarrow> auth_outcome" where
  "authenticateUser verify isValid emps req =
     (let token = tokenOf req
      in if \<not> truthy token
         then Halt (Response 401 (ErrorBody ''Unauthorized: No token provided.''))
         else (case verify (the token) of
                 Throws \<Rightarrow> Halt (Response 401 (ErrorBody ''Unauthorized: Invalid or expired token.''))
               | Decoded i' \<Rightarrow>
                   (case findEmployee isValid emps i' of
                      Inl err \<Rightarrow> Halt (Response 401 (ErrorBody ''Unauthorized: Invalid or expired token.''))
                    | Inr None \<Rightarrow> Halt (Response 401 (ErrorBody ''Unauthorized: User not found.''))
                    | Inr (Some authenticatedUser) \<Rightarrow>
                        Next \<lparr>u_id = emp_id authenticatedUser, u_email = email authenticatedUser,
                              u_name = name authenticatedUser, u_role = role authenticatedUser,
                              u_team = emp_team authenticatedUser\<rparr>)))"

text \<open>
  The three collections, and a route guarded by the middleware, as in
  \<^verbatim>\<open>router.post("/", authenticateUser, createEvent)\<close>: the handler runs only when the
  middleware calls \<^verbatim>\<open>nextMiddleware()\<close>.
\<close>

record database =
  employees :: "employee list"
  events :: "event list"
  tasks :: "task list"

definition guarded ::
  "(string \<Rightarrow> verified) \<Rightarrow> (string \<Rightarrow> bool) \<Rightarrow> (user \<Rightarrow> database \<Rightarrow> response \<times> database)
     \<Rightarrow> auth_request \<Rightarrow> database \<Rightarrow> response \<times> database" where
  "guarded verify isValid handler req db =
     (case authenticateUser verify isValid (employees db) req of
        Halt r \<Rightarrow> (r, db)
      | Next u \<Rightarrow> handler u db)"

section \<open>Compiled report\<close>

text \<open>
  The rows that \<^verbatim>\<open>GET /api/events/compiledReport\<close> returns, as \<^verbatim>\<open>fetchReport\<close> of
  \<^verbatim>\<open>ReportsHome.js\<close> reads them: a year (an integer), an event type, and optionally a
  team, an event name and a budget (\<^verbatim>\<open>Number(cur.totalBudget) || 0\<close> reads a missing or
  non-numeric budget as 0).
\<close>

record api_row =
  year :: int
  team :: "string option"
  eventType :: string
  row_eventName :: "string option"
  totalBudget :: "int option"















text \<open>Rows of a report: the example of the specification, and one with two groups.\<close>

definition rows2 :: "api_row list" where
  "rows2 =
     [\<lparr>year = 2024, team = None, eventType = ''firm-wide'', row_eventName = None,
       totalBudget = Some 1000\<rparr>,
      \<lparr>year = 2024, team = None, eventType = ''firm-wide'', row_eventName = None,
       totalBudget = Some 500\<rparr>]"


section \<open>Sample documents\<close>

definition id1 :: string where "id1 = ''65f0a1b2c3d4e5f601234567''"
definition id2 :: string where "id2 = ''65f0a1b2c3d4e5f601234568''"

definition hex24 :: "string \<Rightarrow> bool" where
  "hex24 s = (length s = 24 \<and> (\<forall>c \<in> set s. c \<in> set ''0123456789abcdefABCDEF''))"

definition task1 :: task where
  "task1 = \<lparr>task_id = id1, taskName = ''Book venue'', description = ''Hall A'',
            eventName = ''Offsite'', eventID = ''65f0a1b2c3d4e5f6012345aa'', status = ''Completed'',
            budget = Some 500, creator = ''boss@x.io'', assignee = ''ann@x.io'',
            deadline = None, createdAt = 100, comments = []\<rparr>"

definition store1 :: task_store where
  "store1 = [task1]"



definition task2 :: task where
  "task2 = task1\<lparr>task_id := id2, status := ''Pending'', assignee := ''bob@x.io''\<rparr>"

definition store2 :: task_store where
  "store2 = [task1, task2]"

definition event1 :: event where
  "event1 = \<lparr>event_id = ''65f0a1b2c3d4e5f6012345aa'', ev_eventName = ''Offsite'',
             ev_eventType = ''limited-entry'', date = Some 5000, venue = None,
             ev_description = ''Team offsite'', availableSlots = Some 1, ticketPrice = Some 20,
             ev_totalBudget = Some 1000, attendees = [], ev_team = [], isPaid = True,
             ev_creator = ''boss@x.io''\<rparr>"

definition emp1 :: employee where
  "emp1 = \<lparr>emp_id = id1, name = ''Ann'', email = ''ann@x.io'', password = ''$2b$10$hash'',
           emp_team = ''General'', role = ''employee''\<rparr>"

definition db1 :: database where
  "db1 = \<lparr>employees = [emp1], events = [], tasks = store1\<rparr>"

text \<open>
  A verifier that accepts two tokens, one of Ann and one of an employee who is not in the
  collection, and a handler that creates an event.
\<close>

definition verify1 :: "string \<Rightarrow> verified" where
  "verify1 tok =
     (if tok = ''ann.token'' then Decoded (Some id1)
      else if tok = ''gone.token'' then Decoded (Some id2)
      else Throws)"

definition createEvent1 :: "user \<Rightarrow> database \<Rightarrow> response \<times> database" where
  "createEvent1 u db =
     (Response 201 (Message ''Event created''),
      db\<lparr>events := events db @ [event1\<lparr>ev_creator := u_email u\<rparr>]\<rparr>)"

section \<open>Properties of the store operations\<close>


lemma findByIdAndUpdate_Some:
  "findById i ts = Some t \<Longrightarrow> fst (findByIdAndUpdate i f ts) = Some (f t)"
  by (induction ts) (auto simp: findById_def split: prod.splits)

lemma findById_after_update:
  assumes "findById i ts = Some t" and "task_id (f t) = i"
  shows "findById i (snd (findByIdAndUpdate i f ts)) = Some (f t)"
  using assms by (induction ts) (auto simp: findById_def split: prod.splits)

lemma findById_task_id: "findById i ts = Some t \<Longrightarrow> task_id t = i"
  by (induction ts) (auto simp: findById_def split: if_splits)

lemma updateTaskStatus_found:
  assumes "i \<noteq> []" and "s \<noteq> []" and "isValid i" and "findById i store = Some t"
  shows "updateTaskStatus isValid store (Some i) (Some s) =
           (Response 200 (MessageTask ''Task status updated'' (t\<lparr>status := s\<rparr>)),
            snd (findByIdAndUpdate i (\<lambda>t. t\<lparr>status := s\<rparr>) store))"
proof -
  have "fst (findByIdAndUpdate i (\<lambda>t. t\<lparr>status := s\<rparr>) store) = Some (t\<lparr>status := s\<rparr>)"
    using assms(4) by (rule findByIdAndUpdate_Some)
  then show ?thesis
    using assms(1-3)
    by (cases "findByIdAndUpdate i (\<lambda>t. t\<lparr>status := s\<rparr>) store")
       (simp add: updateTaskStatus_def)
qed

lemma updateTaskStatus_stored:
  assumes "i \<noteq> []" and "s \<noteq> []" and "isValid i" and "findById i store = Some t"
  shows "findById i (snd (updateTaskStatus isValid store (Some i) (Some s))) =
           Some (t\<lparr>status := s\<rparr>)"
proof -
  have "task_id (t\<lparr>status := s\<rparr>) = i"
    using assms(4) by (simp add: findById_task_id)
  with assms(4)
  have "findById i (snd (findByIdAndUpdate i (\<lambda>t. t\<lparr>status := s\<rparr>) store)) =
          Some (t\<lparr>status := s\<rparr>)"
    by (rule findById_after_update)
  then show ?thesis
    using assms by (simp add: updateTaskStatus_found)
qed

lemma updateAll_last:
  assumes "i \<noteq> []" and "isValid i" and "findById i store = Some t"
    and "ss \<noteq> []" and "\<forall>s \<in> set ss. s \<noteq> []"
  shows "findById i (updateAll isValid store i ss) = Some (t\<lparr>status := last ss\<rparr>)"
  using assms(3-5)
proof (induction ss arbitrary: store t)
  case Nil
  then show ?case by simp
next
  case (Cons s ss)
  let ?store = "snd (updateTaskStatus isValid store (Some i) (Some s))"
  have s: "s \<noteq> []" using Cons.prems(3) by simp
  have stored: "findById i ?store = Some (t\<lparr>status := s\<rparr>)"
    using assms(1) s assms(2) Cons.prems(1) by (rule updateTaskStatus_stored)
  show ?case
  proof (cases "ss = []")
    case True
    with stored show ?thesis by simp
  next
    case False
    have "findById i (updateAll isValid ?store i ss) = Some (t\<lparr>status := s, status := last ss\<rparr>)"
      using stored False Cons.prems(3) by (intro Cons.IH) simp_all
    with False show ?thesis by simp
  qed
qed

section \<open>Status update\<close>



text \<open>
  Claim C2. For every stored task, whatever its current status, and every status among
  Pending, In Progress and Completed, \<^verbatim>\<open>updateTaskStatus\<close> answers 200 and the stored
  status is the supplied one; after any sequence of such updates the stored status is
  the last one set.
\<close>

theorem updateTaskStatus_any_transition:
  assumes "i \<noteq> []" and "isValid i" and "findById i store = Some t"
    and "s \<in> set status_enum" and "ss \<noteq> []" and "set ss \<subseteq> set status_enum"
  shows "code (fst (updateTaskStatus isValid store (Some i) (Some s))) = 200 \<and>
         map_option status (findById i (snd (updateTaskStatus isValid store (Some i) (Some s)))) =
           Some s \<and>
         map_option status (findById i (updateAll isValid store i ss)) = Some (last ss)"
proof -
  have s: "s \<noteq> []"
    using assms(4) by (auto simp: status_enum_def)
  have ss: "\<forall>x \<in> set ss. x \<noteq> []"
    using assms(6) by (auto simp: status_enum_def)
  have "code (fst (updateTaskStatus isValid store (Some i) (Some s))) = 200"
    using assms(1) s assms(2,3) by (simp add: updateTaskStatus_found)
  moreover have "map_option status
      (findById i (snd (updateTaskStatus isValid store (Some i) (Some s)))) = Some s"
    using assms(1) s assms(2,3) by (simp add: updateTaskStatus_stored)
  moreover have "map_option status (findById i (updateAll isValid store i ss)) = Some (last ss)"
    using assms(1,2,3,5) ss by (simp add: updateAll_last)
  ultimately show ?thesis by simp
qed

theorem updateTaskStatus_any_transition_witness:
  "status task1 = ''Completed'' \<and>
   code (fst (updateTaskStatus hex24 store1 (Some id1) (Some ''Pending''))) = 200 \<and>
   map_option status (findById id1 (snd (updateTaskStatus hex24 store1 (Some id1) (Some ''Pending'')))) =
     Some ''Pending'' \<and>
   map_option status
     (findById id1 (updateAll hex24 store1 id1 [''In Progress'', ''Completed'', ''Pending'', ''Completed'', ''In Progress''])) =
     Some ''In Progress''"
proof -
  have "id1 \<noteq> []" and "hex24 id1"
    by (simp_all add: hex24_def id1_def)
  moreover have "findById id1 store1 = Some task1"
    by (simp add: findById_def store1_def task1_def)
  moreover have "''Pending'' \<in> set status_enum"
    by (simp add: status_enum_def)
  moreover have "[''In Progress'', ''Completed'', ''Pending'', ''Completed'', ''In Progress''] \<noteq> []"
    by simp
  moreover have "set [''In Progress'', ''Completed'', ''Pending'', ''Completed'', ''In Progress'']
      \<subseteq> set status_enum"
    by (simp add: status_enum_def)
  ultimately show ?thesis
    using updateTaskStatus_any_transition
      [of id1 hex24 store1 task1 "''Pending''"
          "[''In Progress'', ''Completed'', ''Pending'', ''Completed'', ''In Progress'']"]
    by (simp add: task1_def)
qed

text \<open>
  Claim C10. \<^verbatim>\<open>updateTaskStatus\<close> does not check the status against the schema's enum:
  for every stored task and every non-empty string, the update answers 200 and the
  stored status is that string, so that a string outside the enum leaves the task with
  a status outside the enum.
\<close>

theorem updateTaskStatus_no_enum_check:
  assumes "i \<noteq> []" and "isValid i" and "findById i store = Some t" and "s \<noteq> []"
  shows "code (fst (updateTaskStatus isValid store (Some i) (Some s))) = 200 \<and>
         (\<exists>t'. findById i (snd (updateTaskStatus isValid store (Some i) (Some s))) = Some t' \<and>
               status t' = s \<and>
               (s \<notin> set status_enum \<longrightarrow> status t' \<notin> set status_enum))"
proof -
  have "code (fst (updateTaskStatus isValid store (Some i) (Some s))) = 200"
    using assms by (simp add: updateTaskStatus_found)
  moreover have "findById i (snd (updateTaskStatus isValid store (Some i) (Some s))) =
      Some (t\<lparr>status := s\<rparr>)"
    using assms(1,4,2,3) by (rule updateTaskStatus_stored)
  ultimately show ?thesis by simp
qed

theorem updateTaskStatus_no_enum_check_witness:
  "''Done'' \<notin> set status_enum \<and>
   code (fst (updateTaskStatus hex24 store1 (Some id1) (Some ''Done''))) = 200 \<and>
   (\<exists>t'. findById id1 (snd (updateTaskStatus hex24 store1 (Some id1) (Some ''Done''))) = Some t' \<and>
         status t' = ''Done'' \<and> status t' \<notin> set status_enum)"
proof -
  have "id1 \<noteq> []" and "hex24 id1"
    by (simp_all add: hex24_def id1_def)
  moreover have "findById id1 store1 = Some task1"
    by (simp add: findById_def store1_def task1_def)
  moreover have d: "''Done'' \<notin> set status_enum"
    by (simp add: status_enum_def)
  moreover have "''Done'' \<noteq> []"
    by simp
  ultimately show ?thesis
    using updateTaskStatus_no_enum_check [of id1 hex24 store1 task1 "''Done''"]
    by auto
qed

section \<open>Task lists\<close>

lemma skipLimit_nonneg: "0 \<le> k \<Longrightarrow> skipLimit k n xs = Inr (take n (drop (nat k) xs))"
  by (simp add: skipLimit_def)

lemma skipLimit_negative: "k < 0 \<Longrightarrow> skipLimit k n xs = Inl NegativeSkip"
  by (simp add: skipLimit_def)






text \<open>
  Claim C9. A list endpoint whose query finds nothing answers 404, not an empty list:
  for an assignee with no task, \<^verbatim>\<open>getTasksByAssignee\<close> answers 404 "No tasks found for
  this employee"; for a creator with no event (and a page parameter that is absent or
  not negative, so that the query runs), \<^verbatim>\<open>getEventsByCreator\<close> answers 404 "No events
  found for this creator". Neither endpoint ever answers 200 with an empty array,
  whatever the request.
\<close>

theorem empty_result_is_404:
  "(userEmail \<noteq> [] \<and> (\<forall>t \<in> set store. assignee t \<noteq> userEmail) \<longrightarrow>
      getTasksByAssignee store (Some userEmail) =
        Response 404 (Message ''No tasks found for this employee'')) \<and>
   (userEmail \<noteq> [] \<and> (\<forall>e \<in> set estore. ev_creator e \<noteq> userEmail) \<and>
    (case page' of None \<Rightarrow> True | Some p \<Rightarrow> 0 \<le> p) \<longrightarrow>
      getEventsByCreator estore (Some userEmail) page' =
        Response 404 (Message ''No events found for this creator'')) \<and>
   getTasksByAssignee store header \<noteq> Response 200 (TaskList []) \<and>
   getEventsByCreator estore header page' \<noteq> Response 200 (EventList [])"
proof (intro conjI impI)
  assume a: "userEmail \<noteq> [] \<and> (\<forall>t \<in> set store. assignee t \<noteq> userEmail)"
  then have "filter (\<lambda>t. assignee t = userEmail) store = []"
    by (simp add: filter_empty_conv)
  then show "getTasksByAssignee store (Some userEmail) =
      Response 404 (Message ''No tasks found for this employee'')"
    using a by (simp add: getTasksByAssignee_def sortTasks_def)
next
  assume a: "userEmail \<noteq> [] \<and> (\<forall>e \<in> set estore. ev_creator e \<noteq> userEmail) \<and>
    (case page' of None \<Rightarrow> True | Some p \<Rightarrow> 0 \<le> p)"
  then have none: "filter (\<lambda>e. ev_creator e = userEmail) estore = []"
    by (simp add: filter_empty_conv)
  have "0 \<le> (pageOf page' - 1) * 10"
    using a by (auto simp: pageOf_def split: option.splits)
  then show "getEventsByCreator estore (Some userEmail) page' =
      Response 404 (Message ''No events found for this creator'')"
    using a none by (simp add: getEventsByCreator_def skipLimit_nonneg)
next
  show "getTasksByAssignee store header \<noteq> Response 200 (TaskList [])"
    by (auto simp: getTasksByAssignee_def Let_def)
next
  show "getEventsByCreator estore header page' \<noteq> Response 200 (EventList [])"
    by (auto simp: getEventsByCreator_def Let_def split: sum.splits)
qed

theorem empty_result_is_404_witness:
  "getTasksByAssignee store1 (Some ''carol@x.io'') =
     Response 404 (Message ''No tasks found for this employee'') \<and>
   getEventsByCreator [event1] (Some ''carol@x.io'') None =
     Response 404 (Message ''No events found for this creator'') \<and>
   getEventsByCreator [event1] (Some ''carol@x.io'') (Some 3) =
     Response 404 (Message ''No events found for this creator'')"
proof -
  have "''carol@x.io'' \<noteq> []"
    by simp
  moreover have "\<forall>t \<in> set store1. assignee t \<noteq> ''carol@x.io''"
    by (simp add: store1_def task1_def)
  moreover have "\<forall>e \<in> set [event1]. ev_creator e \<noteq> ''carol@x.io''"
    by (simp add: event1_def)
  moreover have "case None :: int option of None \<Rightarrow> True | Some p \<Rightarrow> 0 \<le> p"
    and "case Some (3::int) of None \<Rightarrow> True | Some p \<Rightarrow> 0 \<le> p"
    by simp_all
  ultimately show ?thesis
    using empty_result_is_404 [of "''carol@x.io''" store1 "[event1]" None]
      empty_result_is_404 [of "''carol@x.io''" store1 "[event1]" "Some 3"]
    by blast
qed

section \<open>Task filter\<close>

lemma filterTasks_query:
  "filterTasks store status' assignee' =
     Response 200 (TaskList (filter (matches
       \<lparr>q_status = (if truthy status' \<and> the status' \<in> set status_enum then status' else None),
        q_assignee = (if truthy assignee' then assignee' else None)\<rparr>) store))"
  by (auto simp: filterTasks_def status_enum_def Let_def)

lemma filter_matches:
  "filter (matches \<lparr>q_status = qs, q_assignee = qa\<rparr>) store =
     filter (\<lambda>t. (case qs of None \<Rightarrow> True | Some s \<Rightarrow> status t = s) \<and>
                 (case qa of None \<Rightarrow> True | Some a \<Rightarrow> assignee t = a)) store"
  by (rule filter_cong) (simp_all add: matches_def)

text \<open>
  Claim C8, as stated, fails: a status parameter that is not one of the three listed
  values puts no constraint on the query. Asked for the status Done, the endpoint
  returns a task whose status is Completed.
\<close>

theorem filterTasks_unlisted_status_counterexample:
  "filterTasks store1 (Some ''Done'') None = Response 200 (TaskList [task1]) \<and>
   status task1 = ''Completed''"
  by (simp add: filterTasks_query matches_def status_enum_def store1_def task1_def)

text \<open>
  Claim C8, amended. The filter is an equality filter on a status among Pending, In
  Progress and Completed and on a non-empty assignee: such a status selects exactly the
  tasks with that status, such an assignee exactly the tasks of that assignee, and both
  apply when both are given. An absent parameter puts no constraint on the result, and
  neither does a status outside the three values or an empty assignee.
\<close>

theorem filterTasks_equality:
  "(s \<in> set status_enum \<longrightarrow>
      filterTasks store (Some s) None =
        Response 200 (TaskList (filter (\<lambda>t. status t = s) store))) \<and>
   (a \<noteq> [] \<longrightarrow>
      filterTasks store None (Some a) =
        Response 200 (TaskList (filter (\<lambda>t. assignee t = a) store))) \<and>
   (s \<in> set status_enum \<and> a \<noteq> [] \<longrightarrow>
      filterTasks store (Some s) (Some a) =
        Response 200 (TaskList (filter (\<lambda>t. status t = s \<and> assignee t = a) store))) \<and>
   filterTasks store None None = Response 200 (TaskList store) \<and>
   (s \<notin> set status_enum \<longrightarrow>
      filterTasks store (Some s) assignee' = filterTasks store None assignee') \<and>
   filterTasks store status' (Some []) = filterTasks store status' None"
proof (intro conjI impI)
  assume "s \<in> set status_enum"
  then show "filterTasks store (Some s) None =
      Response 200 (TaskList (filter (\<lambda>t. status t = s) store))"
    by (auto simp: filterTasks_query filter_matches status_enum_def)
next
  assume "a \<noteq> []"
  then show "filterTasks store None (Some a) =
      Response 200 (TaskList (filter (\<lambda>t. assignee t = a) store))"
    by (simp add: filterTasks_query filter_matches)
next
  assume "s \<in> set status_enum \<and> a \<noteq> []"
  then show "filterTasks store (Some s) (Some a) =
      Response 200 (TaskList (filter (\<lambda>t. status t = s \<and> assignee t = a) store))"
    by (auto simp: filterTasks_query filter_matches status_enum_def)
next
  show "filterTasks store None None = Response 200 (TaskList store)"
    by (simp add: filterTasks_query filter_matches)
next
  assume "s \<notin> set status_enum"
  then show "filterTasks store (Some s) assignee' = filterTasks store None assignee'"
    by (simp add: filterTasks_query)
next
  show "filterTasks store status' (Some []) = filterTasks store status' None"
    by (simp add: filterTasks_query)
qed

theorem filterTasks_equality_witness:
  "filterTasks store2 (Some ''Pending'') None = Response 200 (TaskList [task2]) \<and>
   filterTasks store2 None (Some ''ann@x.io'') = Response 200 (TaskList [task1]) \<and>
   filterTasks store2 (Some ''Pending'') (Some ''ann@x.io'') = Response 200 (TaskList []) \<and>
   filterTasks store2 (Some ''Done'') None = Response 200 (TaskList [task1, task2])"
proof -
  have p: "''Pending'' \<in> set status_enum" and d: "''Done'' \<notin> set status_enum"
    by (simp_all add: status_enum_def)
  have a: "''ann@x.io'' \<noteq> []"
    by simp
  have f1: "filter (\<lambda>t. status t = ''Pending'') store2 = [task2]"
    and f2: "filter (\<lambda>t. assignee t = ''ann@x.io'') store2 = [task1]"
    and f3: "filter (\<lambda>t. status t = ''Pending'' \<and> assignee t = ''ann@x.io'') store2 = []"
    by (simp_all add: store2_def task1_def task2_def)
  note r = filterTasks_equality [where store = store2]
  have "filterTasks store2 (Some ''Pending'') None = Response 200 (TaskList [task2])"
    using r [of "''Pending''"] p f1 by simp
  moreover have "filterTasks store2 None (Some ''ann@x.io'') = Response 200 (TaskList [task1])"
    using r [of _ "''ann@x.io''"] a f2 by simp
  moreover have "filterTasks store2 (Some ''Pending'') (Some ''ann@x.io'') =
      Response 200 (TaskList [])"
    using r [of "''Pending''" "''ann@x.io''"] p a f3 by simp
  moreover have "filterTasks store2 (Some ''Done'') None = Response 200 (TaskList [task1, task2])"
    using r [of "''Done''" _ None] d by (simp add: store2_def)
  ultimately show ?thesis by simp
qed

section \<open>Comments\<close>






section \<open>Authentication\<close>

lemma findEmployee_unknown:
  assumes "\<forall>e \<in> set emps. Some (emp_id e) \<noteq> i'"
  shows "findEmployee isValid emps i' = Inl CastError \<or> findEmployee isValid emps i' = Inr None"
proof (cases i')
  case None
  then show ?thesis by (simp add: findEmployee_def)
next
  case (Some i)
  with assms have "find (\<lambda>e. emp_id e = i) emps = None"
    by (auto simp: find_None_iff)
  with Some show ?thesis by (simp add: findEmployee_def)
qed

text \<open>
  Claim C5. On a route guarded by \<^verbatim>\<open>authenticateUser\<close>, a request with no credential
  (no token cookie and no Authorization header, or an empty token), with a credential
  that \<^verbatim>\<open>jwt.verify\<close> refuses (malformed, wrongly signed or expired), or with a valid
  credential whose decoded identifier is that of no stored employee, is answered 401;
  the answer and the database after the request do not depend on the handler, which is
  not run, and the database is the one before the request.
\<close>

theorem guarded_rejects:
  "guarded verify isValid handler \<lparr>cookie_token = None, authorization = None\<rparr> db =
     (Response 401 (ErrorBody ''Unauthorized: No token provided.''), db) \<and>
   (\<not> truthy (tokenOf req) \<longrightarrow>
      guarded verify isValid handler req db =
        (Response 401 (ErrorBody ''Unauthorized: No token provided.''), db)) \<and>
   (tokenOf req = Some tok \<and> tok \<noteq> [] \<and> verify tok = Throws \<longrightarrow>
      guarded verify isValid handler req db =
        (Response 401 (ErrorBody ''Unauthorized: Invalid or expired token.''), db)) \<and>
   (tokenOf req = Some tok \<and> tok \<noteq> [] \<and> verify tok = Decoded i' \<and>
    (\<forall>e \<in> set (employees db). Some (emp_id e) \<noteq> i') \<longrightarrow>
      guarded verify isValid handler req db =
        (Response 401 (ErrorBody ''Unauthorized: Invalid or expired token.''), db) \<or>
      guarded verify isValid handler req db =
        (Response 401 (ErrorBody ''Unauthorized: User not found.''), db))"
proof (intro conjI impI)
  show "guarded verify isValid handler \<lparr>cookie_token = None, authorization = None\<rparr> db =
      (Response 401 (ErrorBody ''Unauthorized: No token provided.''), db)"
    by (simp add: guarded_def authenticateUser_def tokenOf_def)
next
  assume "\<not> truthy (tokenOf req)"
  then show "guarded verify isValid handler req db =
      (Response 401 (ErrorBody ''Unauthorized: No token provided.''), db)"
    by (simp add: guarded_def authenticateUser_def)
next
  assume "tokenOf req = Some tok \<and> tok \<noteq> [] \<and> verify tok = Throws"
  then show "guarded verify isValid handler req db =
      (Response 401 (ErrorBody ''Unauthorized: Invalid or expired token.''), db)"
    by (simp add: guarded_def authenticateUser_def)
next
  assume a: "tokenOf req = Some tok \<and> tok \<noteq> [] \<and> verify tok = Decoded i' \<and>
    (\<forall>e \<in> set (employees db). Some (emp_id e) \<noteq> i')"
  then have "findEmployee isValid (employees db) i' = Inl CastError \<or>
      findEmployee isValid (employees db) i' = Inr None"
    by (simp add: findEmployee_unknown)
  then show "guarded verify isValid handler req db =
        (Response 401 (ErrorBody ''Unauthorized: Invalid or expired token.''), db) \<or>
      guarded verify isValid handler req db =
        (Response 401 (ErrorBody ''Unauthorized: User not found.''), db)"
    using a by (auto simp: guarded_def authenticateUser_def)
qed

theorem guarded_rejects_witness:
  "guarded verify1 hex24 createEvent1 \<lparr>cookie_token = None, authorization = Some ''Bearer ''\<rparr> db1 =
     (Response 401 (ErrorBody ''Unauthorized: No token provided.''), db1) \<and>
   guarded verify1 hex24 createEvent1 \<lparr>cookie_token = None, authorization = Some ''Bearer x.y''\<rparr> db1 =
     (Response 401 (ErrorBody ''Unauthorized: Invalid or expired token.''), db1) \<and>
   guarded verify1 hex24 createEvent1 \<lparr>cookie_token = Some ''gone.token'', authorization = None\<rparr> db1 =
     (Response 401 (ErrorBody ''Unauthorized: User not found.''), db1) \<and>
   snd (guarded verify1 hex24 createEvent1 \<lparr>cookie_token = Some ''ann.token'', authorization = None\<rparr> db1) \<noteq> db1"
proof -
  let ?none = "\<lparr>cookie_token = None, authorization = Some ''Bearer ''\<rparr>"
  let ?bad = "\<lparr>cookie_token = None, authorization = Some ''Bearer x.y''\<rparr>"
  let ?gone = "\<lparr>cookie_token = Some ''gone.token'', authorization = None\<rparr>"
  have t1: "\<not> truthy (tokenOf ?none)"
    by (simp add: tokenOf_def)
  have t2: "tokenOf ?bad = Some ''x.y'' \<and> ''x.y'' \<noteq> [] \<and> verify1 ''x.y'' = Throws"
    by (simp add: tokenOf_def verify1_def)
  have t3: "tokenOf ?gone = Some ''gone.token'' \<and> ''gone.token'' \<noteq> [] \<and>
      verify1 ''gone.token'' = Decoded (Some id2) \<and>
      (\<forall>e \<in> set (employees db1). Some (emp_id e) \<noteq> Some id2)"
    by (simp add: tokenOf_def verify1_def db1_def emp1_def id1_def id2_def)
  have v: "findEmployee hex24 (employees db1) (Some id2) = Inr None"
    by (simp add: findEmployee_def hex24_def db1_def emp1_def id1_def id2_def)
  have "guarded verify1 hex24 createEvent1 ?none db1 =
      (Response 401 (ErrorBody ''Unauthorized: No token provided.''), db1)"
    using guarded_rejects [of verify1 hex24 createEvent1 db1 ?none] t1 by blast
  moreover have "guarded verify1 hex24 createEvent1 ?bad db1 =
      (Response 401 (ErrorBody ''Unauthorized: Invalid or expired token.''), db1)"
    using guarded_rejects [of verify1 hex24 createEvent1 db1 ?bad "''x.y''"] t2 by blast
  moreover have "guarded verify1 hex24 createEvent1 ?gone db1 =
        (Response 401 (ErrorBody ''Unauthorized: Invalid or expired token.''), db1) \<or>
      guarded verify1 hex24 createEvent1 ?gone db1 =
        (Response 401 (ErrorBody ''Unauthorized: User not found.''), db1)"
    using guarded_rejects [of verify1 hex24 createEvent1 db1 ?gone "''gone.token''" "Some id2"] t3
    by blast
  then have "guarded verify1 hex24 createEvent1 ?gone db1 =
      (Response 401 (ErrorBody ''Unauthorized: User not found.''), db1)"
    using t3 v by (auto simp: guarded_def authenticateUser_def)
  moreover have "snd (guarded verify1 hex24 createEvent1
      \<lparr>cookie_token = Some ''ann.token'', authorization = None\<rparr> db1) \<noteq> db1"
    by (simp add: guarded_def authenticateUser_def tokenOf_def verify1_def findEmployee_def
        hex24_def db1_def emp1_def id1_def createEvent1_def)
  ultimately show ?thesis by blast
qed

section \<open>RSVP\<close>

text \<open>
  Claim C1. RSVP appends the caller's identifier to the attendees and looks neither at
  the slots left nor at the attendees already there: for every event and identifier,
  two RSVPs with the same identifier add two occurrences of it, so that a second RSVP
  changes the event again. On a limited-entry event with one slot left and no attendee,
  the attendees after two RSVPs are twice the same identifier.
\<close>

theorem confirmRSVP_not_idempotent:
  "attendees (confirmRSVP (confirmRSVP e who) who) = attendees e @ [who, who] \<and>
   count_list (attendees (confirmRSVP (confirmRSVP e who) who)) who =
     count_list (attendees e) who + 2 \<and>
   confirmRSVP (confirmRSVP e who) who \<noteq> confirmRSVP e who \<and>
   ev_eventType event1 = ''limited-entry'' \<and> availableSlots event1 = Some 1 \<and>
   attendees (confirmRSVP (confirmRSVP event1 who) who) = [who, who]"
proof -
  have "attendees (confirmRSVP (confirmRSVP e who) who) \<noteq> attendees (confirmRSVP e who)"
    by (simp add: confirmRSVP_def)
  then have "confirmRSVP (confirmRSVP e who) who \<noteq> confirmRSVP e who"
    by auto
  then show ?thesis
    by (simp add: confirmRSVP_def event1_def)
qed

section \<open>Compiled report: grouping\<close>

























end
